theory Spec2Isabelle
  imports Complex_Main
begin

section \<open>Arrays\<close>

text \<open>
  The filter of \<^verbatim>\<open>UKF_Odom.py\<close> works on NumPy arrays of fixed shape. A vector is
  modelled as a list of reals and a matrix as the list of its rows. Floating-point
  numbers are idealised as reals throughout, so every statement below is about the
  arithmetic the code writes down, not about its rounding. The state is a \<open>(6,1)\<close> array
  before the first full step and a \<open>(6,)\<close> array afterwards; NumPy broadcasting makes both
  behave alike in every expression of the file, and both are the same list of six reals
  here.
\<close>

type_synonym vec = "real list"
type_synonym mat = "real list list"

definition zeros :: "nat \<Rightarrow> vec" where
  "zeros n = replicate n 0"

definition ones :: "nat \<Rightarrow> vec" where
  "ones n = replicate n 1"

definition zeros2 :: "nat \<Rightarrow> nat \<Rightarrow> mat" where
  "zeros2 r c = replicate r (replicate c 0)"

definition eye :: "nat \<Rightarrow> mat" where
  "eye n = map (\<lambda>i. map (\<lambda>j. if i = j then 1 else 0) [0..<n]) [0..<n]"

definition vec_add :: "vec \<Rightarrow> vec \<Rightarrow> vec" where
  "vec_add u v = map2 (+) u v"

definition vec_sub :: "vec \<Rightarrow> vec \<Rightarrow> vec" where
  "vec_sub u v = map2 (-) u v"

definition scal :: "real \<Rightarrow> vec \<Rightarrow> vec" where
  "scal c v = map ((*) c) v"

definition mat_add :: "mat \<Rightarrow> mat \<Rightarrow> mat" where
  "mat_add A B = map2 vec_add A B"

definition mat_sub :: "mat \<Rightarrow> mat \<Rightarrow> mat" where
  "mat_sub A B = map2 vec_sub A B"

definition mat_scal :: "real \<Rightarrow> mat \<Rightarrow> mat" where
  "mat_scal c A = map (scal c) A"

definition col :: "mat \<Rightarrow> nat \<Rightarrow> vec" where
  \<comment> \<open>\<^verbatim>\<open>A[:, j]\<close>\<close>
  "col A j = map (\<lambda>r. r ! j) A"

definition ncols :: "mat \<Rightarrow> nat" where
  "ncols A = (case A of [] \<Rightarrow> 0 | r # _ \<Rightarrow> length r)"

definition mat_T :: "mat \<Rightarrow> mat" where
  \<comment> \<open>\<^verbatim>\<open>A.T\<close>\<close>
  "mat_T A = map (col A) [0..<ncols A]"

definition dot :: "vec \<Rightarrow> vec \<Rightarrow> real" where
  "dot u v = sum_list (map2 (*) u v)"

definition mat_vec :: "mat \<Rightarrow> vec \<Rightarrow> vec" where
  \<comment> \<open>\<^verbatim>\<open>A @ v\<close> for a one-dimensional \<open>v\<close>\<close>
  "mat_vec A v = map (\<lambda>r. dot r v) A"

definition matmul :: "mat \<Rightarrow> mat \<Rightarrow> mat" where
  \<comment> \<open>\<^verbatim>\<open>A @ B\<close>\<close>
  "matmul A B = map (\<lambda>r. map (\<lambda>j. dot r (col B j)) [0..<ncols B]) A"

definition outer :: "vec \<Rightarrow> vec \<Rightarrow> mat" where
  \<comment> \<open>\<^verbatim>\<open>np.outer(u, v)\<close>\<close>
  "outer u v = map (\<lambda>a. map (\<lambda>b. a * b) v) u"

definition py_idx :: "nat \<Rightarrow> int \<Rightarrow> nat" where
  \<comment> \<open>a Python index into an axis of length \<open>len\<close>: negative indices count from the end\<close>
  "py_idx len i = (if i < 0 then nat (int len + i) else nat i)"

definition get2 :: "mat \<Rightarrow> int \<Rightarrow> int \<Rightarrow> real" where
  \<comment> \<open>\<^verbatim>\<open>A[i, j]\<close>\<close>
  "get2 A i j = (let r = A ! py_idx (length A) i in r ! py_idx (length r) j)"

definition put2 :: "mat \<Rightarrow> int \<Rightarrow> int \<Rightarrow> real \<Rightarrow> mat" where
  \<comment> \<open>\<^verbatim>\<open>A[i, j] = v\<close>\<close>
  "put2 A i j v =
    (let ri = py_idx (length A) i; r = A ! ri
     in A[ri := r[py_idx (length r) j := v]])"

definition put_col_from :: "mat \<Rightarrow> nat \<Rightarrow> nat \<Rightarrow> real \<Rightarrow> mat" where
  \<comment> \<open>\<^verbatim>\<open>A[i:, j] = v\<close>\<close>
  "put_col_from A i j v = take i A @ map (\<lambda>r. r[j := v]) (drop i A)"

definition sum_axis0 :: "nat \<Rightarrow> mat \<Rightarrow> vec" where
  \<comment> \<open>\<^verbatim>\<open>np.sum(A, axis=0)\<close> for an array with \<open>c\<close> columns\<close>
  "sum_axis0 c A = map (\<lambda>j. sum_list (col A j)) [0..<c]"

section \<open>Messages and filter state\<close>

record twist_cmd =
  linear_x :: real
  linear_y :: real
  angular_z :: real

record imu =
  stamp :: real
  angular_velocity_z :: real
  angular_velocity_covariance :: "real list"

record joint_state =
  velocity :: "real list"

record ukf =
  state :: vec
  state_cov :: mat
  prev_time :: "real option"

datatype error = LinAlgError | ValueError | IndexError

text \<open>
  The two NumPy routines the filter calls and this repository does not define,
  \<^verbatim>\<open>np.linalg.cholesky\<close> and \<^verbatim>\<open>np.linalg.inv\<close>, are parameters of the model. Each
  raises \<^verbatim>\<open>LinAlgError\<close> (here \<open>None\<close>) on a matrix it cannot factor or invert.
\<close>

record linalg =
  la_cholesky :: "mat \<Rightarrow> mat option"
  la_inv :: "mat \<Rightarrow> mat option"

definition init :: ukf where
  \<comment> \<open>\<^verbatim>\<open>__init__\<close>, lines 30 to 35\<close>
  "init = \<lparr> state = zeros 6, state_cov = mat_scal (1/10) (eye 6), prev_time = None \<rparr>"

section \<open>Motion model\<close>

definition predict :: "mat \<Rightarrow> vec \<Rightarrow> twist_cmd \<Rightarrow> real \<Rightarrow> vec \<times> mat" where
  \<comment> \<open>\<^verbatim>\<open>predict\<close>; the first argument is \<^verbatim>\<open>self.state_cov\<close>, read for the linearised
      covariance only\<close>
  "predict P st cmd_vel dt =
    (let vx = linear_x cmd_vel;
         vy = linear_y cmd_vel;
         omega = angular_z cmd_vel;
         Gx = [[1, 0, - (vx * sin (st ! 2) + vy * cos (st ! 2)) * dt, dt * cos (st ! 2), - dt * sin (st ! 2), 0],
               [0, 1, (vx * cos (st ! 2) - vy * sin (st ! 2)) * dt, dt * sin (st ! 2), dt * cos (st ! 2), 0],
               [0, 0, 1, 0, 0, dt],
               [0, 0, 0, 1, 0, 0],
               [0, 0, 0, 0, 1, 0],
               [0, 0, 0, 0, 0, 1]];
         predicted_state = zeros 6;
         predicted_state = predicted_state[0 := st ! 0 + (vx * cos (st ! 2) - vy * sin (st ! 2)) * dt];
         predicted_state = predicted_state[1 := st ! 1 + (vy * cos (st ! 2) + vx * sin (st ! 2)) * dt];
         predicted_state = predicted_state[2 := st ! 2 + omega * dt];
         predicted_state = predicted_state[3 := vx];
         predicted_state = predicted_state[4 := vy];
         predicted_state = predicted_state[5 := omega];
         EKF_pred_cov = matmul (matmul Gx P) (mat_T Gx)
     in (predicted_state, EKF_pred_cov))"

section \<open>Measurement update\<close>

definition wheel_radius :: real where
  "wheel_radius = 0.0762"

definition wheel_pair_separation :: real where
  "wheel_pair_separation = 0.488"

definition wheel_separation :: real where
  "wheel_separation = 0.44715"

definition wheel_width :: real where
  "wheel_width = 0.05"

definition obs_matrix :: mat where
  \<comment> \<open>the matrix \<^verbatim>\<open>C\<close> of \<^verbatim>\<open>innovation\<close>, lines 153 to 167\<close>
  "obs_matrix =
    (let b = 0.5 * (wheel_separation + wheel_width);
         a = 0.5 * (wheel_radius + wheel_pair_separation);
         roller_wheel_effect = (a + b) / wheel_radius;
         C = zeros2 5 6;
         C = put2 C 0 5 1;
         C = put_col_from C 1 3 (1 / wheel_radius);
         C = put_col_from C 1 4 (1 / wheel_radius);
         C = put_col_from C 1 5 roller_wheel_effect;
         C = put2 C 1 4 (- 1 * get2 C 1 4);
         C = put2 C 4 4 (- 1 * get2 C 4 4);
         C = put2 C 1 5 (- 1 * get2 C 1 5);
         C = put2 C 3 5 (- 1 * get2 C 3 5)
     in C)"

definition epsilon :: real where
  "epsilon = 1 / 10 ^ 6"

definition innovation :: "linalg \<Rightarrow> vec \<Rightarrow> mat \<Rightarrow> vec \<Rightarrow> mat \<Rightarrow> error + vec \<times> mat" where
  \<comment> \<open>\<^verbatim>\<open>innovation\<close>, lines 169 to 176\<close>
  "innovation la pred_state pred_cov z z_cov =
    (let C = obs_matrix;
         innovation_cov =
           mat_add (mat_add (matmul (matmul C pred_cov) (mat_T C)) z_cov) (mat_scal epsilon (eye 5))
     in case la_inv la innovation_cov of
          None \<Rightarrow> Inl LinAlgError
        | Some innovation_cov_inv \<Rightarrow>
            (let K = matmul (matmul pred_cov (mat_T C)) innovation_cov_inv;
                 st = vec_add pred_state (mat_vec K (vec_sub z (mat_vec C pred_state)));
                 st_cov = mat_add (matmul (mat_sub (eye 6) (matmul K C)) pred_cov) (mat_scal epsilon (eye 6))
             in Inr (st, st_cov)))"

section \<open>Published message\<close>

record odometry =
  header_stamp :: real
  frame_id :: string
  child_frame_id :: string
  position :: "real \<times> real \<times> real"
  orientation_rot :: mat
  pose_covariance :: "real list"
  twist_linear_x :: real
  twist_linear_y :: real
  twist_angular_z :: real
  twist_covariance :: "real list"

definition publish_odometry :: "ukf \<Rightarrow> real \<Rightarrow> ukf \<times> odometry" where
  \<comment> \<open>\<^verbatim>\<open>publish_odometry\<close>: returns the object as the method leaves it and the message handed
      to the publisher. The orientation is kept as the homogeneous rotation matrix that the
      code passes to \<^verbatim>\<open>tf.transformations.quaternion_from_matrix\<close>.\<close>
  "publish_odometry self current_t =
    (let th = state self ! 2;
         orientation_matrix = [[cos th, - sin th, 0, 0],
                               [sin th, cos th, 0, 0],
                               [0, 0, 1, 0], [0, 0, 0, 1]];
         P = state_cov self;
         pose_cov = zeros2 6 6;
         pose_cov = put2 pose_cov 0 0 (get2 P 0 0);
         pose_cov = put2 pose_cov 0 1 (get2 P 0 1);
         pose_cov = put2 pose_cov 1 0 (get2 P 0 1);
         pose_cov = put2 pose_cov 1 1 (get2 P 1 1);
         pose_cov = put2 pose_cov 0 (- 1) (get2 P 0 2);
         pose_cov = put2 pose_cov (- 1) 0 (get2 P 0 2);
         pose_cov = put2 pose_cov 1 (- 1) (get2 P 1 2);
         pose_cov = put2 pose_cov (- 1) 1 (get2 P 1 2);
         pose_cov = put2 pose_cov (- 1) (- 1) (get2 P 2 2);
         twist_cov = zeros2 6 6;
         twist_cov = put2 twist_cov 0 0 (get2 P 3 3);
         twist_cov = put2 twist_cov 1 1 (get2 P 4 4);
         twist_cov = put2 twist_cov (- 1) (- 1) (get2 P 5 5);
         twist_cov = put2 twist_cov 0 (- 1) (get2 P (- 1) 3);
         twist_cov = put2 twist_cov (- 1) 0 (get2 P (- 1) 3);
         twist_cov = put2 twist_cov 1 (- 1) (get2 P 4 (- 1));
         twist_cov = put2 twist_cov (- 1) 1 (get2 P (- 1) 4);
         message = \<lparr> header_stamp = current_t,
                     frame_id = ''odom'',
                     child_frame_id = ''base_footprint'',
                     position = (state self ! 0, state self ! 1, 0),
                     orientation_rot = orientation_matrix,
                     pose_covariance = concat pose_cov,
                     twist_linear_x = state self ! 3,
                     twist_linear_y = state self ! 4,
                     twist_angular_z = state self ! 5,
                     twist_covariance = concat twist_cov \<rparr>
     in (self, message))"

section \<open>The filtering step\<close>

definition n_state :: int where
  \<comment> \<open>\<^verbatim>\<open>n\<close>\<close>
  "n_state = 6"

definition k_param :: int where
  \<comment> \<open>\<^verbatim>\<open>k\<close>\<close>
  "k_param = 3"

definition lambda_value :: int where
  "lambda_value = 7 - n_state"

definition measurement_of :: "imu \<Rightarrow> joint_state \<Rightarrow> error + vec" where
  \<comment> \<open>lines 48 to 50; the slice assignment takes four values, broadcasts a single one and
      raises on any other length\<close>
  "measurement_of imu_data wheel_encoder_data =
    (let measurement = zeros 5;
         vs = velocity wheel_encoder_data
     in if length vs = 4 then Inr ((take 1 measurement @ vs)[0 := angular_velocity_z imu_data])
        else if length vs = 1 then Inr ((take 1 measurement @ replicate 4 (vs ! 0))[0 := angular_velocity_z imu_data])
        else Inl ValueError)"

definition z_cov_of :: "imu \<Rightarrow> error + mat" where
  \<comment> \<open>lines 51 and 52\<close>
  "z_cov_of imu_data =
    (let z_cov = mat_scal 3 (eye 5);
         c = angular_velocity_covariance imu_data
     in if 8 < length c then Inr (put2 z_cov 0 0 (c ! 8)) else Inl IndexError)"

definition sigma_scale :: real where
  \<comment> \<open>\<^verbatim>\<open>math.sqrt((n-k)+lambda_value)\<close>\<close>
  "sigma_scale = sqrt (real_of_int ((n_state - k_param) + lambda_value))"

definition sigma_of :: "vec \<Rightarrow> mat \<Rightarrow> mat" where
  \<comment> \<open>lines 67 to 78\<close>
  "sigma_of st cov_sqrt =
    (let sigma = zeros2 (nat (2 * n_state + 1)) (nat n_state);
         sigma = sigma[0 := st];
         sigma = fold (\<lambda>i sg. sg[i + 1 := vec_add st (scal sigma_scale (col cov_sqrt i))])
                   [0..<nat n_state] sigma;
         sigma = fold (\<lambda>i sg. sg[nat n_state + i + 1 := vec_sub st (scal sigma_scale (col cov_sqrt i))])
                   [0..<nat n_state] sigma
     in sigma)"

definition mean_weights :: vec where
  \<comment> \<open>lines 80 and 83\<close>
  "mean_weights =
    (scal (1 / real_of_int (2 * (n_state + lambda_value))) (ones (nat (2 * n_state + 1))))
      [0 := real_of_int lambda_value / real_of_int (lambda_value + n_state)]"

definition cov_weights :: vec where
  \<comment> \<open>lines 81 and 84: a copy of the weights of line 80, then its own entry 0\<close>
  "cov_weights =
    (scal (1 / real_of_int (2 * (n_state + lambda_value))) (ones (nat (2 * n_state + 1))))
      [0 := real_of_int lambda_value / real_of_int (lambda_value + n_state)]"

definition propagate :: "mat \<Rightarrow> vec \<Rightarrow> mat \<Rightarrow> twist_cmd \<Rightarrow> real \<Rightarrow> mat \<times> mat list" where
  \<comment> \<open>lines 85 to 95: the loop over the sigma points\<close>
  "propagate P mean_pred sigma cmd_vel dt =
    fold (\<lambda>i (weighted_pred, weighted_cov_pred).
            (let pred = fst (predict P (sigma ! i) cmd_vel dt);
                 weighted_pred = weighted_pred[i := scal (mean_weights ! i) pred];
                 distance = vec_sub mean_pred pred;
                 A = outer distance distance
             in (weighted_pred, weighted_cov_pred @ [mat_scal (cov_weights ! i) A])))
         [0..<length sigma]
         (zeros2 (nat (2 * n_state + 1)) (nat n_state), [])"

definition recombine :: "mat \<Rightarrow> vec \<Rightarrow> mat \<Rightarrow> twist_cmd \<Rightarrow> real \<Rightarrow> vec \<times> mat" where
  \<comment> \<open>lines 88 to 102: predicted state and predicted covariance\<close>
  "recombine P st sigma cmd_vel dt =
    (let mean_pred = fst (predict P st cmd_vel dt);
         (weighted_pred, weighted_cov_pred) = propagate P mean_pred sigma cmd_vel dt;
         pred_cov = fold (\<lambda>matrix acc. mat_add acc matrix) weighted_cov_pred (zeros2 6 6);
         pred_state = sum_axis0 (nat n_state) weighted_pred
     in (pred_state, pred_cov))"

definition callback ::
  "linalg \<Rightarrow> ukf \<Rightarrow> imu \<Rightarrow> joint_state \<Rightarrow> twist_cmd \<Rightarrow> ukf \<times> (error + odometry option)" where
  \<comment> \<open>\<^verbatim>\<open>callback\<close>: the object after the call, and either the exception raised or the
      message published, if any. The linearised prediction of line 55 is computed and
      never read, and is left out.\<close>
  "callback la self imu_data wheel_encoder_data cmd_vel =
    (let current_t = stamp imu_data
     in case prev_time self of
          None \<Rightarrow> (self\<lparr>prev_time := Some current_t\<rparr>, Inr None)
        | Some pt \<Rightarrow>
            (let dt = current_t - pt;
                 self = self\<lparr>prev_time := Some current_t\<rparr>
             in case measurement_of imu_data wheel_encoder_data of
                  Inl e \<Rightarrow> (self, Inl e)
                | Inr measurement \<Rightarrow>
                    (case z_cov_of imu_data of
                       Inl e \<Rightarrow> (self, Inl e)
                     | Inr z_cov \<Rightarrow>
                         (case la_cholesky la (state_cov self) of
                            None \<Rightarrow> (self, Inl LinAlgError)
                          | Some cov_sqrt \<Rightarrow>
                              (let sigma = sigma_of (state self) cov_sqrt;
                                   (pred_state, pred_cov) =
                                     recombine (state_cov self) (state self) sigma cmd_vel dt
                               in case innovation la pred_state pred_cov measurement z_cov of
                                    Inl e \<Rightarrow> (self, Inl e)
                                  | Inr (UKF_posterior, UKF_cov_posterior) \<Rightarrow>
                                      (let self = self\<lparr>state := UKF_posterior,
                                                        state_cov := UKF_cov_posterior\<rparr>;
                                           (self, message) = publish_odometry self current_t
                                       in (self, Inr (Some message))))))))"

section \<open>Reference statistics\<close>

text \<open>
  The predicted mean and covariance as the design states them, over the propagated sigma
  points \<open>f\<close>: the weighted mean, and the weighted outer products taken about that mean.
\<close>

definition propagated :: "mat \<Rightarrow> mat \<Rightarrow> twist_cmd \<Rightarrow> real \<Rightarrow> mat" where
  \<comment> \<open>the sigma points after the motion model\<close>
  "propagated P sigma cmd_vel dt = map (\<lambda>s. fst (predict P s cmd_vel dt)) sigma"

definition spec_pred_mean :: "mat \<Rightarrow> vec" where
  "spec_pred_mean f = map (\<lambda>r. \<Sum>i<13. mean_weights ! i * f ! i ! r) [0..<6]"

definition cov_about :: "vec \<Rightarrow> mat \<Rightarrow> mat" where
  \<comment> \<open>the weighted outer products of the points \<open>f\<close> taken about a reference point \<open>m\<close>\<close>
  "cov_about m f =
    map (\<lambda>r. map (\<lambda>c. \<Sum>i<13. cov_weights ! i * (m ! r - f ! i ! r) * (m ! c - f ! i ! c))
                 [0..<6]) [0..<6]"

definition spec_pred_cov :: "mat \<Rightarrow> mat" where
  "spec_pred_cov f = cov_about (spec_pred_mean f) f"

section \<open>A sample run\<close>

text \<open>
  An instance of the two library routines on diagonal matrices, where the lower Cholesky
  factor is the diagonal of square roots and the inverse the diagonal of reciprocals; on
  any other matrix the instance gives no result. The runs below call it on diagonal
  matrices only.
\<close>

definition diag_mat :: "vec \<Rightarrow> mat" where
  "diag_mat d = map (\<lambda>i. map (\<lambda>j. if i = j then d ! i else 0) [0..<length d]) [0..<length d]"

definition diag_of :: "mat \<Rightarrow> vec" where
  "diag_of A = map (\<lambda>i. A ! i ! i) [0..<length A]"

definition cholesky_diag :: "mat \<Rightarrow> mat option" where
  "cholesky_diag A =
    (if A = diag_mat (diag_of A) \<and> list_all (\<lambda>d. 0 < d) (diag_of A)
     then Some (diag_mat (map sqrt (diag_of A))) else None)"

definition inv_diag :: "mat \<Rightarrow> mat option" where
  "inv_diag A =
    (if A = diag_mat (diag_of A) \<and> list_all (\<lambda>d. d \<noteq> 0) (diag_of A)
     then Some (diag_mat (map inverse (diag_of A))) else None)"

definition la_diag :: linalg where
  "la_diag = \<lparr> la_cholesky = cholesky_diag, la_inv = inv_diag \<rparr>"

definition imu_at :: "real \<Rightarrow> imu" where
  \<comment> \<open>an IMU sample stamped \<open>t\<close>: no rotation, yaw-rate variance 0.01\<close>
  "imu_at t = \<lparr> stamp = t, angular_velocity_z = 0,
                angular_velocity_covariance = [0, 0, 0, 0, 0, 0, 0, 0, 1 / 100] \<rparr>"

definition wheels_still :: joint_state where
  "wheels_still = \<lparr> velocity = [0, 0, 0, 0] \<rparr>"

definition cmd_forward :: twist_cmd where
  "cmd_forward = \<lparr> linear_x = 1, linear_y = 0, angular_z = 0 \<rparr>"

definition cmd_turn :: twist_cmd where
  "cmd_turn = \<lparr> linear_x = 0, linear_y = 0, angular_z = 1 \<rparr>"

definition started_sqrt :: mat where
  \<comment> \<open>the lower Cholesky factor of the initial covariance\<close>
  "started_sqrt = diag_mat (replicate 6 (sqrt (1 / 10)))"

definition started :: ukf where
  \<comment> \<open>the filter after its first sample, stamped 0\<close>
  "started = fst (callback la_diag init (imu_at 0) wheels_still cmd_forward)"

definition started_sigma :: mat where
  \<comment> \<open>the sigma points of the second sample\<close>
  "started_sigma = sigma_of (state started) started_sqrt"

section \<open>Evaluation lemmas\<close>

lemma upt_6: "[0..<6] = [0, 1, 2, 3, 4, 5]"
  by code_simp

lemma upt_5: "[0..<5] = [0, 1, 2, 3, 4]"
  by code_simp

lemma replicate_6: "replicate 6 x = [x, x, x, x, x, x]"
  by (simp add: numeral_eq_Suc)

lemma replicate_13: "replicate 13 x = [x,x,x,x,x,x,x,x,x,x,x,x,x]"
  by (simp add: numeral_eq_Suc)

lemma replicate_12: "replicate 12 x = [x,x,x,x,x,x,x,x,x,x,x,x]"
  by (simp add: numeral_eq_Suc)

lemma replicate_5: "replicate 5 x = [x,x,x,x,x]"
  by (simp add: numeral_eq_Suc)

lemma upt_13: "[0..<13] = [0,1,2,3,4,5,6,7,8,9,10,11,12]"
  by code_simp

lemmas arr = vec_add_def vec_sub_def scal_def col_def mat_scal_def mat_add_def mat_sub_def outer_def
  sum_axis0_def zeros_def zeros2_def ones_def replicate_13 replicate_12 replicate_6 replicate_5
  upt_6 upt_5 upt_13 eye_def matmul_def mat_T_def ncols_def dot_def mat_vec_def put2_def get2_def
  py_idx_def put_col_from_def

lemma sum_13: "(\<Sum>i<13::nat. g i) = g 0 + g 1 + g 2 + g 3 + g 4 + g 5 + g 6 + g 7 + g 8 + g 9 + g 10 + g 11 + (g 12 :: real)"
  by (simp add: eval_nat_numeral lessThan_Suc)

lemma list6: "length x = 6 \<Longrightarrow> x = [x ! 0, x ! 1, x ! 2, x ! 3, x ! 4, x ! 5]"
  by (auto simp: numeral_eq_Suc length_Suc_conv)

lemma less6: "i < 6 \<Longrightarrow> i = 0 \<or> i = 1 \<or> i = 2 \<or> i = 3 \<or> i = 4 \<or> i = (5::nat)"
  by arith

lemma sigma_scale_2: "sigma_scale = 2"
  by (simp add: sigma_scale_def n_state_def k_param_def lambda_value_def)

lemma weights_nth:
  "mean_weights = [1/7,1/14,1/14,1/14,1/14,1/14,1/14,1/14,1/14,1/14,1/14,1/14,1/14]"
  "cov_weights = [1/7,1/14,1/14,1/14,1/14,1/14,1/14,1/14,1/14,1/14,1/14,1/14,1/14]"
  by (simp_all add: mean_weights_def cov_weights_def n_state_def lambda_value_def arr)

lemma sigma_of_closed:
  "sigma_of [x0, x1, x2, x3, x4, x5]
      [[a00, a01, a02, a03, a04, a05], [a10, a11, a12, a13, a14, a15],
       [a20, a21, a22, a23, a24, a25], [a30, a31, a32, a33, a34, a35],
       [a40, a41, a42, a43, a44, a45], [a50, a51, a52, a53, a54, a55]] =
    [[x0, x1, x2, x3, x4, x5],
     [x0 + 2 * a00, x1 + 2 * a10, x2 + 2 * a20, x3 + 2 * a30, x4 + 2 * a40, x5 + 2 * a50],
     [x0 + 2 * a01, x1 + 2 * a11, x2 + 2 * a21, x3 + 2 * a31, x4 + 2 * a41, x5 + 2 * a51],
     [x0 + 2 * a02, x1 + 2 * a12, x2 + 2 * a22, x3 + 2 * a32, x4 + 2 * a42, x5 + 2 * a52],
     [x0 + 2 * a03, x1 + 2 * a13, x2 + 2 * a23, x3 + 2 * a33, x4 + 2 * a43, x5 + 2 * a53],
     [x0 + 2 * a04, x1 + 2 * a14, x2 + 2 * a24, x3 + 2 * a34, x4 + 2 * a44, x5 + 2 * a54],
     [x0 + 2 * a05, x1 + 2 * a15, x2 + 2 * a25, x3 + 2 * a35, x4 + 2 * a45, x5 + 2 * a55],
     [x0 - 2 * a00, x1 - 2 * a10, x2 - 2 * a20, x3 - 2 * a30, x4 - 2 * a40, x5 - 2 * a50],
     [x0 - 2 * a01, x1 - 2 * a11, x2 - 2 * a21, x3 - 2 * a31, x4 - 2 * a41, x5 - 2 * a51],
     [x0 - 2 * a02, x1 - 2 * a12, x2 - 2 * a22, x3 - 2 * a32, x4 - 2 * a42, x5 - 2 * a52],
     [x0 - 2 * a03, x1 - 2 * a13, x2 - 2 * a23, x3 - 2 * a33, x4 - 2 * a43, x5 - 2 * a53],
     [x0 - 2 * a04, x1 - 2 * a14, x2 - 2 * a24, x3 - 2 * a34, x4 - 2 * a44, x5 - 2 * a54],
     [x0 - 2 * a05, x1 - 2 * a15, x2 - 2 * a25, x3 - 2 * a35, x4 - 2 * a45, x5 - 2 * a55]]"
  by (simp add: sigma_of_def Let_def n_state_def sigma_scale_2 arr)

lemma mat6:
  assumes "length L = 6" and "\<forall>row\<in>set L. length row = 6"
  shows "L = [[L!0!0, L!0!1, L!0!2, L!0!3, L!0!4, L!0!5], [L!1!0, L!1!1, L!1!2, L!1!3, L!1!4, L!1!5],
              [L!2!0, L!2!1, L!2!2, L!2!3, L!2!4, L!2!5], [L!3!0, L!3!1, L!3!2, L!3!3, L!3!4, L!3!5],
              [L!4!0, L!4!1, L!4!2, L!4!3, L!4!4, L!4!5], [L!5!0, L!5!1, L!5!2, L!5!3, L!5!4, L!5!5]]"
proof -
  have rows: "L = [L ! 0, L ! 1, L ! 2, L ! 3, L ! 4, L ! 5]"
    using assms(1) by (rule list6)
  have len: "length (L ! j) = 6" if "j < 6" for j
    using assms that by simp
  have "L ! j = [L!j!0, L!j!1, L!j!2, L!j!3, L!j!4, L!j!5]" if "j < 6" for j
    using len [OF that] by (rule list6)
  from this [of 0] this [of 1] this [of 2] this [of 3] this [of 4] this [of 5] rows
  show ?thesis by simp
qed

lemma started_eq: "started = \<lparr> state = [0,0,0,0,0,0], state_cov =
   [[1/10,0,0,0,0,0],[0,1/10,0,0,0,0],[0,0,1/10,0,0,0],[0,0,0,1/10,0,0],[0,0,0,0,1/10,0],[0,0,0,0,0,1/10]], prev_time = Some 0 \<rparr>"
  by (simp add: started_def callback_def init_def imu_at_def arr)

lemma started_sqrt_eq:
  "started_sqrt = [[sqrt (1/10),0,0,0,0,0],[0,sqrt (1/10),0,0,0,0],[0,0,sqrt (1/10),0,0,0],
                   [0,0,0,sqrt (1/10),0,0],[0,0,0,0,sqrt (1/10),0],[0,0,0,0,0,sqrt (1/10)]]"
  by (simp add: started_sqrt_def diag_mat_def arr)

lemma chol_started: "la_cholesky la_diag (state_cov started) = Some started_sqrt"
  by (simp add: started_eq la_diag_def cholesky_diag_def diag_mat_def diag_of_def started_sqrt_def arr)

lemma started_sqrt_factor: "matmul started_sqrt (mat_T started_sqrt) = state_cov started"
  by (simp add: started_eq started_sqrt_eq arr)

lemma obs_matrix_closed:
  "obs_matrix =
    [[0, 0, 0, 0, 0, 1],
     [0, 0, 0, 1 / wheel_radius, - (1 / wheel_radius), - ((0.5 * (wheel_radius + wheel_pair_separation) + 0.5 * (wheel_separation + wheel_width)) / wheel_radius)],
     [0, 0, 0, 1 / wheel_radius, 1 / wheel_radius, (0.5 * (wheel_radius + wheel_pair_separation) + 0.5 * (wheel_separation + wheel_width)) / wheel_radius],
     [0, 0, 0, 1 / wheel_radius, 1 / wheel_radius, - ((0.5 * (wheel_radius + wheel_pair_separation) + 0.5 * (wheel_separation + wheel_width)) / wheel_radius)],
     [0, 0, 0, 1 / wheel_radius, - (1 / wheel_radius), (0.5 * (wheel_radius + wheel_pair_separation) + 0.5 * (wheel_separation + wheel_width)) / wheel_radius]]"
  by (simp add: obs_matrix_def Let_def arr)

lemma z_cov_closed:
  "8 < length (angular_velocity_covariance i) \<Longrightarrow>
   z_cov_of i = Inr [[angular_velocity_covariance i ! 8, 0, 0, 0, 0],
                     [0, 3, 0, 0, 0], [0, 0, 3, 0, 0], [0, 0, 0, 3, 0], [0, 0, 0, 0, 3]]"
  by (simp add: z_cov_of_def Let_def arr)

lemma publish_keeps: "fst (publish_odometry s t) = s"
  by (simp add: publish_odometry_def Let_def)

lemma publish_pair: "publish_odometry s t = (s, snd (publish_odometry s t))"
  using publish_keeps [of s t] by (cases "publish_odometry s t") simp

lemma pose_cov_closed:
  "pose_covariance (snd (publish_odometry s t)) =
     [get2 (state_cov s) 0 0, get2 (state_cov s) 0 1, 0, 0, 0, get2 (state_cov s) 0 2,
      get2 (state_cov s) 0 1, get2 (state_cov s) 1 1, 0, 0, 0, get2 (state_cov s) 1 2,
      0, 0, 0, 0, 0, 0,
      0, 0, 0, 0, 0, 0,
      0, 0, 0, 0, 0, 0,
      get2 (state_cov s) 0 2, get2 (state_cov s) 1 2, 0, 0, 0, get2 (state_cov s) 2 2]"
  by (simp add: publish_odometry_def Let_def zeros2_def replicate_6 put2_def py_idx_def)

lemma twist_cov_closed:
  "twist_covariance (snd (publish_odometry s t)) =
     [get2 (state_cov s) 3 3, 0, 0, 0, 0, get2 (state_cov s) (- 1) 3,
      0, get2 (state_cov s) 4 4, 0, 0, 0, get2 (state_cov s) 4 (- 1),
      0, 0, 0, 0, 0, 0,
      0, 0, 0, 0, 0, 0,
      0, 0, 0, 0, 0, 0,
      get2 (state_cov s) (- 1) 3, get2 (state_cov s) (- 1) 4, 0, 0, 0, get2 (state_cov s) 5 5]"
  by (simp add: publish_odometry_def Let_def zeros2_def replicate_6 put2_def py_idx_def)

lemma callback_first:
  "prev_time s = None \<Longrightarrow> callback la s i w c = (s\<lparr>prev_time := Some (stamp i)\<rparr>, Inr None)"
  by (simp add: callback_def Let_def)

lemma callback_run:
  assumes "prev_time self = Some pt"
    and "measurement_of imu_data w = Inr z"
    and "z_cov_of imu_data = Inr R"
    and "la_cholesky la (state_cov self) = Some L"
    and "recombine (state_cov self) (state self) (sigma_of (state self) L) cmd (stamp imu_data - pt) = (xb, Pb)"
  shows "callback la self imu_data w cmd =
     (case innovation la xb Pb z R of
        Inl e \<Rightarrow> (self\<lparr>prev_time := Some (stamp imu_data)\<rparr>, Inl e)
      | Inr p \<Rightarrow>
          (self\<lparr>prev_time := Some (stamp imu_data), state := fst p, state_cov := snd p\<rparr>,
           Inr (Some (snd (publish_odometry
             (self\<lparr>prev_time := Some (stamp imu_data), state := fst p, state_cov := snd p\<rparr>)
             (stamp imu_data))))))"
  using assms
  by (simp add: callback_def Let_def split: sum.splits prod.splits)
     (metis publish_pair prod.inject)

lemma obs_matrix_num:
  "obs_matrix =
    [[0, 0, 0, 0, 0, 1],
     [0, 0, 0, 5000 / 381, - (5000 / 381), - (21227 / 3048)],
     [0, 0, 0, 5000 / 381, 5000 / 381, 21227 / 3048],
     [0, 0, 0, 5000 / 381, 5000 / 381, - (21227 / 3048)],
     [0, 0, 0, 5000 / 381, - (5000 / 381), 21227 / 3048]]"
  by (simp add: obs_matrix_closed wheel_radius_def wheel_pair_separation_def wheel_separation_def
      wheel_width_def)

lemma innovation_sample:
  "innovation la_diag [0, 0, 0, 1, 0, 0]
      [[2 / 35, 0, 0, 0, 0, 0], [0, 2 / 35, 0, 0, 0, 0], [0, 0, 2 / 35, 0, 0, 0],
       [0, 0, 0, 0, 0, 0], [0, 0, 0, 0, 0, 0], [0, 0, 0, 0, 0, 0]]
      [0, 0, 0, 0, 0]
      [[1 / 100, 0, 0, 0, 0], [0, 3, 0, 0, 0], [0, 0, 3, 0, 0], [0, 0, 0, 3, 0], [0, 0, 0, 0, 3]] =
   Inr ([0, 0, 0, 1, 0, 0],
        [[400007 / 7000000, 0, 0, 0, 0, 0], [0, 400007 / 7000000, 0, 0, 0, 0],
         [0, 0, 400007 / 7000000, 0, 0, 0], [0, 0, 0, 1 / 1000000, 0, 0],
         [0, 0, 0, 0, 1 / 1000000, 0], [0, 0, 0, 0, 0, 1 / 1000000]])"
  by (simp add: innovation_def Let_def epsilon_def obs_matrix_num la_diag_def inv_diag_def
      diag_mat_def diag_of_def arr)

lemma inv_sample:
  "la_inv la_diag
     (mat_add (mat_add (matmul (matmul obs_matrix
        [[2 / 35, 0, 0, 0, 0, 0], [0, 2 / 35, 0, 0, 0, 0], [0, 0, 2 / 35, 0, 0, 0],
         [0, 0, 0, 0, 0, 0], [0, 0, 0, 0, 0, 0], [0, 0, 0, 0, 0, 0]]) (mat_T obs_matrix))
        [[1 / 100, 0, 0, 0, 0], [0, 3, 0, 0, 0], [0, 0, 3, 0, 0], [0, 0, 0, 3, 0], [0, 0, 0, 0, 3]])
        (mat_scal (1 / 10 ^ 6) (eye 5)))
   = Some [[1000000 / 10001, 0, 0, 0, 0], [0, 1000000 / 3000001, 0, 0, 0],
           [0, 0, 1000000 / 3000001, 0, 0], [0, 0, 0, 1000000 / 3000001, 0],
           [0, 0, 0, 0, 1000000 / 3000001]]"
  by (simp add: obs_matrix_num la_diag_def inv_diag_def diag_mat_def diag_of_def arr)

lemma measurement_sample: "measurement_of (imu_at t) wheels_still = Inr [0, 0, 0, 0, 0]"
  by (simp add: measurement_of_def imu_at_def wheels_still_def arr)

lemma z_cov_sample:
  "z_cov_of (imu_at t) =
     Inr [[1 / 100, 0, 0, 0, 0], [0, 3, 0, 0, 0], [0, 0, 3, 0, 0], [0, 0, 0, 3, 0], [0, 0, 0, 0, 3]]"
  by (simp add: z_cov_closed imu_at_def)

lemma recombine_dt0:
  "recombine (state_cov started) (state started) (sigma_of (state started) started_sqrt) cmd_forward 0 =
    ([0, 0, 0, 1, 0, 0],
     [[2 / 35, 0, 0, 0, 0, 0], [0, 2 / 35, 0, 0, 0, 0], [0, 0, 2 / 35, 0, 0, 0],
      [0, 0, 0, 0, 0, 0], [0, 0, 0, 0, 0, 0], [0, 0, 0, 0, 0, 0]])"
  by (simp add: started_eq started_sqrt_eq sigma_of_closed Let_def n_state_def
      recombine_def propagate_def predict_def cmd_forward_def weights_nth arr)

lemma callback_dt0:
  "callback la_diag started (imu_at 0) wheels_still cmd_forward =
    (\<lparr> state = [0, 0, 0, 1, 0, 0],
        state_cov = [[400007 / 7000000, 0, 0, 0, 0, 0], [0, 400007 / 7000000, 0, 0, 0, 0],
                     [0, 0, 400007 / 7000000, 0, 0, 0], [0, 0, 0, 1 / 1000000, 0, 0],
                     [0, 0, 0, 0, 1 / 1000000, 0], [0, 0, 0, 0, 0, 1 / 1000000]],
        prev_time = Some 0 \<rparr>,
     Inr (Some (snd (publish_odometry
       \<lparr> state = [0, 0, 0, 1, 0, 0],
          state_cov = [[400007 / 7000000, 0, 0, 0, 0, 0], [0, 400007 / 7000000, 0, 0, 0, 0],
                       [0, 0, 400007 / 7000000, 0, 0, 0], [0, 0, 0, 1 / 1000000, 0, 0],
                       [0, 0, 0, 0, 1 / 1000000, 0], [0, 0, 0, 0, 0, 1 / 1000000]],
          prev_time = Some 0 \<rparr> 0))))"
proof -
  have p: "prev_time started = Some 0" by (simp add: started_eq)
  have r: "recombine (state_cov started) (state started) (sigma_of (state started) started_sqrt)
      cmd_forward (stamp (imu_at 0) - 0) =
    ([0, 0, 0, 1, 0, 0],
     [[2 / 35, 0, 0, 0, 0, 0], [0, 2 / 35, 0, 0, 0, 0], [0, 0, 2 / 35, 0, 0, 0],
      [0, 0, 0, 0, 0, 0], [0, 0, 0, 0, 0, 0], [0, 0, 0, 0, 0, 0]])"
    using recombine_dt0 by (simp add: imu_at_def)
  show ?thesis
    using callback_run [OF p measurement_sample z_cov_sample chol_started r]
    by (simp add: innovation_sample started_eq imu_at_def)
qed

lemma predict_fst:
  "fst (predict P s cmd dt) =
     [s ! 0 + (linear_x cmd * cos (s ! 2) - linear_y cmd * sin (s ! 2)) * dt,
      s ! 1 + (linear_y cmd * cos (s ! 2) + linear_x cmd * sin (s ! 2)) * dt,
      s ! 2 + angular_z cmd * dt,
      linear_x cmd, linear_y cmd, angular_z cmd]"
  by (simp add: predict_def Let_def zeros_def replicate_6)

lemma cov_about_13:
  "cov_about m [f0, f1, f2, f3, f4, f5, f6, f7, f8, f9, f10, f11, f12] =
    map (\<lambda>r. map (\<lambda>c.
        (m ! r - f0 ! r) * (m ! c - f0 ! c) / 7 + (m ! r - f1 ! r) * (m ! c - f1 ! c) / 14
        + (m ! r - f2 ! r) * (m ! c - f2 ! c) / 14 + (m ! r - f3 ! r) * (m ! c - f3 ! c) / 14
        + (m ! r - f4 ! r) * (m ! c - f4 ! c) / 14 + (m ! r - f5 ! r) * (m ! c - f5 ! c) / 14
        + (m ! r - f6 ! r) * (m ! c - f6 ! c) / 14 + (m ! r - f7 ! r) * (m ! c - f7 ! c) / 14
        + (m ! r - f8 ! r) * (m ! c - f8 ! c) / 14 + (m ! r - f9 ! r) * (m ! c - f9 ! c) / 14
        + (m ! r - f10 ! r) * (m ! c - f10 ! c) / 14 + (m ! r - f11 ! r) * (m ! c - f11 ! c) / 14
        + (m ! r - f12 ! r) * (m ! c - f12 ! c) / 14) [0..<6]) [0..<6]"
  by (simp add: cov_about_def weights_nth sum_13 upt_6)

lemma spec_pred_mean_13:
  "spec_pred_mean [f0, f1, f2, f3, f4, f5, f6, f7, f8, f9, f10, f11, f12] =
    map (\<lambda>r. f0 ! r / 7 + f1 ! r / 14 + f2 ! r / 14 + f3 ! r / 14 + f4 ! r / 14 + f5 ! r / 14
        + f6 ! r / 14 + f7 ! r / 14 + f8 ! r / 14 + f9 ! r / 14 + f10 ! r / 14 + f11 ! r / 14
        + f12 ! r / 14) [0..<6]"
  by (simp add: spec_pred_mean_def weights_nth sum_13 upt_6)

lemma sigma_iso:
  "sigma_of [0, 0, 0, 0, 0, 0]
     [[a, 0, 0, 0, 0, 0], [0, a, 0, 0, 0, 0], [0, 0, a, 0, 0, 0],
      [0, 0, 0, a, 0, 0], [0, 0, 0, 0, a, 0], [0, 0, 0, 0, 0, a]] =
   [[0, 0, 0, 0, 0, 0], [2 * a, 0, 0, 0, 0, 0], [0, 2 * a, 0, 0, 0, 0], [0, 0, 2 * a, 0, 0, 0],
    [0, 0, 0, 2 * a, 0, 0], [0, 0, 0, 0, 2 * a, 0], [0, 0, 0, 0, 0, 2 * a],
    [- (2 * a), 0, 0, 0, 0, 0], [0, - (2 * a), 0, 0, 0, 0], [0, 0, - (2 * a), 0, 0, 0],
    [0, 0, 0, - (2 * a), 0, 0], [0, 0, 0, 0, - (2 * a), 0], [0, 0, 0, 0, 0, - (2 * a)]]"
  by (simp add: sigma_of_closed)

lemma recombine_iso:
  "recombine P [0, 0, 0, 0, 0, 0]
   [[0, 0, 0, 0, 0, 0], [2 * a, 0, 0, 0, 0, 0], [0, 2 * a, 0, 0, 0, 0], [0, 0, 2 * a, 0, 0, 0],
    [0, 0, 0, 2 * a, 0, 0], [0, 0, 0, 0, 2 * a, 0], [0, 0, 0, 0, 0, 2 * a],
    [- (2 * a), 0, 0, 0, 0, 0], [0, - (2 * a), 0, 0, 0, 0], [0, 0, - (2 * a), 0, 0, 0],
    [0, 0, 0, - (2 * a), 0, 0], [0, 0, 0, 0, - (2 * a), 0], [0, 0, 0, 0, 0, - (2 * a)]]
   cmd_forward 1 =
   ([(6 + cos (2 * a)) / 7, 0, 0, 1, 0, 0],
    [[(1 - cos (2 * a)) * (1 - cos (2 * a)) / 7 + 4 * (a * a) / 7, 0, 0, 0, 0, 0],
     [0, sin (2 * a) * sin (2 * a) / 7 + 4 * (a * a) / 7, 2 * (a * sin (2 * a)) / 7, 0, 0, 0],
     [0, 2 * (a * sin (2 * a)) / 7, 4 * (a * a) / 7, 0, 0, 0],
     [0, 0, 0, 0, 0, 0], [0, 0, 0, 0, 0, 0], [0, 0, 0, 0, 0, 0]])"
  by (simp add: Let_def n_state_def recombine_def propagate_def predict_fst cmd_forward_def
      weights_nth arr) (simp add: field_simps)

lemma recombine_iso_turn:
  "recombine P [0, 0, 0, 0, 0, 0]
   [[0, 0, 0, 0, 0, 0], [2 * a, 0, 0, 0, 0, 0], [0, 2 * a, 0, 0, 0, 0], [0, 0, 2 * a, 0, 0, 0],
    [0, 0, 0, 2 * a, 0, 0], [0, 0, 0, 0, 2 * a, 0], [0, 0, 0, 0, 0, 2 * a],
    [- (2 * a), 0, 0, 0, 0, 0], [0, - (2 * a), 0, 0, 0, 0], [0, 0, - (2 * a), 0, 0, 0],
    [0, 0, 0, - (2 * a), 0, 0], [0, 0, 0, 0, - (2 * a), 0], [0, 0, 0, 0, 0, - (2 * a)]]
   cmd_turn (- 1) =
   ([0, 0, - 1, 0, 0, 1],
    [[4 * (a * a) / 7, 0, 0, 0, 0, 0], [0, 4 * (a * a) / 7, 0, 0, 0, 0],
     [0, 0, 4 * (a * a) / 7, 0, 0, 0],
     [0, 0, 0, 0, 0, 0], [0, 0, 0, 0, 0, 0], [0, 0, 0, 0, 0, 0]])"
  by (simp add: Let_def n_state_def recombine_def propagate_def predict_fst cmd_turn_def
      weights_nth arr) (simp add: field_simps)

lemma propagated_iso:
  "propagated P
   [[0, 0, 0, 0, 0, 0], [2 * a, 0, 0, 0, 0, 0], [0, 2 * a, 0, 0, 0, 0], [0, 0, 2 * a, 0, 0, 0],
    [0, 0, 0, 2 * a, 0, 0], [0, 0, 0, 0, 2 * a, 0], [0, 0, 0, 0, 0, 2 * a],
    [- (2 * a), 0, 0, 0, 0, 0], [0, - (2 * a), 0, 0, 0, 0], [0, 0, - (2 * a), 0, 0, 0],
    [0, 0, 0, - (2 * a), 0, 0], [0, 0, 0, 0, - (2 * a), 0], [0, 0, 0, 0, 0, - (2 * a)]]
   cmd_forward 1 =
   [[1, 0, 0, 1, 0, 0], [2 * a + 1, 0, 0, 1, 0, 0], [1, 2 * a, 0, 1, 0, 0],
    [cos (2 * a), sin (2 * a), 2 * a, 1, 0, 0],
    [1, 0, 0, 1, 0, 0], [1, 0, 0, 1, 0, 0], [1, 0, 0, 1, 0, 0],
    [1 - 2 * a, 0, 0, 1, 0, 0], [1, - (2 * a), 0, 1, 0, 0],
    [cos (2 * a), - sin (2 * a), - (2 * a), 1, 0, 0],
    [1, 0, 0, 1, 0, 0], [1, 0, 0, 1, 0, 0], [1, 0, 0, 1, 0, 0]]"
  by (simp add: propagated_def predict_fst cmd_forward_def)

lemma mean_iso:
  fixes a c s :: real
  shows "spec_pred_mean
    [[1, 0, 0, 1, 0, 0], [2 * a + 1, 0, 0, 1, 0, 0], [1, 2 * a, 0, 1, 0, 0], [c, s, 2 * a, 1, 0, 0],
     [1, 0, 0, 1, 0, 0], [1, 0, 0, 1, 0, 0], [1, 0, 0, 1, 0, 0],
     [1 - 2 * a, 0, 0, 1, 0, 0], [1, - (2 * a), 0, 1, 0, 0], [c, - s, - (2 * a), 1, 0, 0],
     [1, 0, 0, 1, 0, 0], [1, 0, 0, 1, 0, 0], [1, 0, 0, 1, 0, 0]] =
    [(6 + c) / 7, 0, 0, 1, 0, 0]"
  by (simp add: spec_pred_mean_13 upt_6 field_simps)

lemma cov_iso:
  fixes a c s :: real
  shows "cov_about [1, 0, 0, 1, 0, 0]
    [[1, 0, 0, 1, 0, 0], [2 * a + 1, 0, 0, 1, 0, 0], [1, 2 * a, 0, 1, 0, 0], [c, s, 2 * a, 1, 0, 0],
     [1, 0, 0, 1, 0, 0], [1, 0, 0, 1, 0, 0], [1, 0, 0, 1, 0, 0],
     [1 - 2 * a, 0, 0, 1, 0, 0], [1, - (2 * a), 0, 1, 0, 0], [c, - s, - (2 * a), 1, 0, 0],
     [1, 0, 0, 1, 0, 0], [1, 0, 0, 1, 0, 0], [1, 0, 0, 1, 0, 0]] =
    [[(1 - c) * (1 - c) / 7 + 4 * (a * a) / 7, 0, 0, 0, 0, 0],
     [0, s * s / 7 + 4 * (a * a) / 7, 2 * (a * s) / 7, 0, 0, 0],
     [0, 2 * (a * s) / 7, 4 * (a * a) / 7, 0, 0, 0],
     [0, 0, 0, 0, 0, 0], [0, 0, 0, 0, 0, 0], [0, 0, 0, 0, 0, 0]]"
  by (simp add: cov_about_13 upt_6)

lemma spec_cov_iso_00:
  fixes a c s :: real
  shows "spec_pred_cov
    [[1, 0, 0, 1, 0, 0], [2 * a + 1, 0, 0, 1, 0, 0], [1, 2 * a, 0, 1, 0, 0], [c, s, 2 * a, 1, 0, 0],
     [1, 0, 0, 1, 0, 0], [1, 0, 0, 1, 0, 0], [1, 0, 0, 1, 0, 0],
     [1 - 2 * a, 0, 0, 1, 0, 0], [1, - (2 * a), 0, 1, 0, 0], [c, - s, - (2 * a), 1, 0, 0],
     [1, 0, 0, 1, 0, 0], [1, 0, 0, 1, 0, 0], [1, 0, 0, 1, 0, 0]] ! 0 ! 0 =
    (1 - c) * (1 - c) / 7 + 4 * (a * a) / 7 - (1 - c)\<^sup>2 / 49"
  unfolding spec_pred_cov_def mean_iso
  by (simp add: cov_about_13 upt_6 power2_eq_square field_simps)

lemma cos_sample_lt_1: "cos (2 * sqrt (1 / 10)) < 1"
proof -
  have "sqrt (1 / 10) \<le> sqrt 1" by (subst real_sqrt_le_iff) simp
  then have "2 * sqrt (1 / 10) \<le> 2" by simp
  also have "2 \<le> pi" by (rule pi_ge_two)
  finally have le: "2 * sqrt (1 / 10) \<le> pi" .
  have pos: "0 < 2 * sqrt (1 / 10)" by simp
  have "cos (2 * sqrt (1 / 10)) < cos 0"
    by (rule cos_monotone_0_pi) (use pos le in simp_all)
  then show ?thesis by simp
qed

lemma started_sigma_eq:
  "started_sigma =
   [[0, 0, 0, 0, 0, 0], [2 * sqrt (1 / 10), 0, 0, 0, 0, 0], [0, 2 * sqrt (1 / 10), 0, 0, 0, 0],
    [0, 0, 2 * sqrt (1 / 10), 0, 0, 0], [0, 0, 0, 2 * sqrt (1 / 10), 0, 0],
    [0, 0, 0, 0, 2 * sqrt (1 / 10), 0], [0, 0, 0, 0, 0, 2 * sqrt (1 / 10)],
    [- (2 * sqrt (1 / 10)), 0, 0, 0, 0, 0], [0, - (2 * sqrt (1 / 10)), 0, 0, 0, 0],
    [0, 0, - (2 * sqrt (1 / 10)), 0, 0, 0], [0, 0, 0, - (2 * sqrt (1 / 10)), 0, 0],
    [0, 0, 0, 0, - (2 * sqrt (1 / 10)), 0], [0, 0, 0, 0, 0, - (2 * sqrt (1 / 10))]]"
  unfolding started_sigma_def started_sqrt_eq
  by (simp only: started_eq ukf.simps sigma_iso)

lemma state_started: "state started = [0, 0, 0, 0, 0, 0]"
  by (simp add: started_eq)

lemma recombine_turn:
  "recombine (state_cov started) (state started) (sigma_of (state started) started_sqrt) cmd_turn
      (stamp (imu_at (- 1)) - 0) =
    ([0, 0, - 1, 0, 0, 1],
     [[2 / 35, 0, 0, 0, 0, 0], [0, 2 / 35, 0, 0, 0, 0], [0, 0, 2 / 35, 0, 0, 0],
      [0, 0, 0, 0, 0, 0], [0, 0, 0, 0, 0, 0], [0, 0, 0, 0, 0, 0]])"
proof -
  have "recombine (state_cov started) (state started) started_sigma cmd_turn (- 1) =
    ([0, 0, - 1, 0, 0, 1],
     [[4 * (sqrt (1 / 10) * sqrt (1 / 10)) / 7, 0, 0, 0, 0, 0],
      [0, 4 * (sqrt (1 / 10) * sqrt (1 / 10)) / 7, 0, 0, 0, 0],
      [0, 0, 4 * (sqrt (1 / 10) * sqrt (1 / 10)) / 7, 0, 0, 0],
      [0, 0, 0, 0, 0, 0], [0, 0, 0, 0, 0, 0], [0, 0, 0, 0, 0, 0]])"
    unfolding state_started started_sigma_eq by (rule recombine_iso_turn)
  then show ?thesis
    by (simp add: started_sigma_def imu_at_def)
qed

lemma innovation_turn:
  "innovation la_diag [0, 0, - 1, 0, 0, 1]
      [[2 / 35, 0, 0, 0, 0, 0], [0, 2 / 35, 0, 0, 0, 0], [0, 0, 2 / 35, 0, 0, 0],
       [0, 0, 0, 0, 0, 0], [0, 0, 0, 0, 0, 0], [0, 0, 0, 0, 0, 0]]
      [0, 0, 0, 0, 0]
      [[1 / 100, 0, 0, 0, 0], [0, 3, 0, 0, 0], [0, 0, 3, 0, 0], [0, 0, 0, 3, 0], [0, 0, 0, 0, 3]] =
   Inr ([0, 0, - 1, 0, 0, 1],
        [[400007 / 7000000, 0, 0, 0, 0, 0], [0, 400007 / 7000000, 0, 0, 0, 0],
         [0, 0, 400007 / 7000000, 0, 0, 0], [0, 0, 0, 1 / 1000000, 0, 0],
         [0, 0, 0, 0, 1 / 1000000, 0], [0, 0, 0, 0, 0, 1 / 1000000]])"
  by (simp add: innovation_def Let_def epsilon_def obs_matrix_num la_diag_def inv_diag_def
      diag_mat_def diag_of_def arr)

lemma callback_commits:
  assumes "prev_time self = Some pt"
    and "measurement_of imu_data w = Inr z"
    and "z_cov_of imu_data = Inr R"
    and "la_cholesky la (state_cov self) = Some L"
    and "snd (callback la self imu_data w cmd) = Inr r"
  shows "innovation la
           (fst (recombine (state_cov self) (state self) (sigma_of (state self) L) cmd (stamp imu_data - pt)))
           (snd (recombine (state_cov self) (state self) (sigma_of (state self) L) cmd (stamp imu_data - pt)))
           z R
         = Inr (state (fst (callback la self imu_data w cmd)),
                state_cov (fst (callback la self imu_data w cmd)))
     \<and> prev_time (fst (callback la self imu_data w cmd)) = Some (stamp imu_data)
     \<and> r = Some (snd (publish_odometry (fst (callback la self imu_data w cmd)) (stamp imu_data)))"
proof -
  let ?xb = "fst (recombine (state_cov self) (state self) (sigma_of (state self) L) cmd (stamp imu_data - pt))"
  let ?Pb = "snd (recombine (state_cov self) (state self) (sigma_of (state self) L) cmd (stamp imu_data - pt))"
  have rc: "recombine (state_cov self) (state self) (sigma_of (state self) L) cmd (stamp imu_data - pt)
      = (?xb, ?Pb)" by simp
  note run = callback_run [OF assms(1,2,3,4) rc]
  show ?thesis
  proof (cases "innovation la ?xb ?Pb z R")
    case (Inl e)
    with run assms(5) show ?thesis by simp
  next
    case (Inr p)
    with run assms(5) show ?thesis by auto
  qed
qed

section \<open>Motion model\<close>

text \<open>
  C6. For a state \<open>[x, y, \<theta>, vx, vy, \<omega>]\<close>, a commanded velocity and a time step, the
  motion model returns position and heading integrated from the current heading and the
  three velocity components overwritten by the command. The result is the same whatever
  the stored covariance, so the thirteen calls of one step depend on their arguments only.
\<close>

theorem predict_state:
  "fst (predict P [x, y, th, vx0, vy0, om0] cmd dt) =
     [x + (linear_x cmd * cos th - linear_y cmd * sin th) * dt,
      y + (linear_y cmd * cos th + linear_x cmd * sin th) * dt,
      th + angular_z cmd * dt,
      linear_x cmd, linear_y cmd, angular_z cmd]"
  by (simp add: predict_def Let_def zeros_def replicate_6)

section \<open>Sigma points and weights\<close>

text \<open>
  C3. For a state of six components and a 6 by 6 square root \<open>L\<close> of the covariance (in
  the step, the lower Cholesky factor returned by the library), the generator yields 13
  points: point 0 is the state, point \<open>i + 1\<close> is the state plus twice column \<open>i\<close> of
  \<open>L\<close>, point \<open>i + 7\<close> the state minus twice that column, for \<open>i\<close> from 0 to 5. The
  constants are \<open>n = 6\<close>, \<open>k = 3\<close>, \<open>\<lambda> = 7 - n = 1\<close>, and the scale is
  \<open>sqrt ((n - k) + \<lambda>) = 2\<close>.
\<close>

theorem sigma_points_layout:
  assumes "length x = 6" and "length L = 6" and "\<forall>row\<in>set L. length row = 6" and "i < 6"
  shows "length (sigma_of x L) = 13 \<and> sigma_of x L ! 0 = x
     \<and> sigma_of x L ! (i + 1) = map (\<lambda>r. x ! r + 2 * (L ! r ! i)) [0..<6]
     \<and> sigma_of x L ! (i + 7) = map (\<lambda>r. x ! r - 2 * (L ! r ! i)) [0..<6]
     \<and> n_state = 6 \<and> k_param = 3 \<and> lambda_value = 1 \<and> sigma_scale = 2"
proof -
  note xs = list6 [OF assms(1)]
  note Ls = mat6 [OF assms(2,3)]
  have s: "sigma_of x L = sigma_of [x ! 0, x ! 1, x ! 2, x ! 3, x ! 4, x ! 5]
     [[L!0!0, L!0!1, L!0!2, L!0!3, L!0!4, L!0!5], [L!1!0, L!1!1, L!1!2, L!1!3, L!1!4, L!1!5],
              [L!2!0, L!2!1, L!2!2, L!2!3, L!2!4, L!2!5], [L!3!0, L!3!1, L!3!2, L!3!3, L!3!4, L!3!5],
              [L!4!0, L!4!1, L!4!2, L!4!3, L!4!4, L!4!5], [L!5!0, L!5!1, L!5!2, L!5!3, L!5!4, L!5!5]]"
    using xs Ls by simp
  have a: "length (sigma_of x L) = 13"
    by (simp add: s sigma_of_closed)
  have "sigma_of x L ! 0 = [x ! 0, x ! 1, x ! 2, x ! 3, x ! 4, x ! 5]"
    by (simp add: s sigma_of_closed)
  with xs have a0: "sigma_of x L ! 0 = x"
    by simp
  have b: "sigma_of x L ! (i + 1) = map (\<lambda>r. x ! r + 2 * (L ! r ! i)) [0..<6]"
    using less6 [OF assms(4)] by (auto simp add: s sigma_of_closed upt_6)
  have c: "sigma_of x L ! (i + 7) = map (\<lambda>r. x ! r - 2 * (L ! r ! i)) [0..<6]"
    using less6 [OF assms(4)] by (auto simp add: s sigma_of_closed upt_6)
  show ?thesis
    using a a0 b c by (simp add: sigma_scale_2 n_state_def k_param_def lambda_value_def)
qed

theorem sigma_points_layout_witness:
  "length (state started) = 6 \<and> length started_sqrt = 6 \<and> (2::nat) < 6
   \<and> length (sigma_of (state started) started_sqrt) = 13
   \<and> sigma_of (state started) started_sqrt ! 0 = [0, 0, 0, 0, 0, 0]
   \<and> sigma_of (state started) started_sqrt ! 3 = [0, 0, 2 * sqrt (1 / 10), 0, 0, 0]
   \<and> sigma_of (state started) started_sqrt ! 9 = [0, 0, - (2 * sqrt (1 / 10)), 0, 0, 0]"
proof -
  have h1: "length (state started) = 6" by (simp add: started_eq)
  have h2: "length started_sqrt = 6" by (simp add: started_sqrt_eq)
  have h3: "\<forall>row\<in>set started_sqrt. length row = 6" by (simp add: started_sqrt_eq)
  have h4: "(2::nat) < 6" by simp
  show ?thesis
    using sigma_points_layout [OF h1 h2 h3 h4] h1 h2
    by (simp add: started_eq started_sqrt_eq upt_6)
qed

text \<open>
  C4. The mean weights and the covariance weights are both the list of 13 entries whose
  first is \<open>\<lambda> / (\<lambda> + n) = 1/7\<close> and whose others are \<open>1 / (2 (n + \<lambda>)) = 1/14\<close>.
\<close>

theorem weights_values:
  "mean_weights = (1/7) # replicate 12 (1/14) \<and> cov_weights = (1/7) # replicate 12 (1/14)
   \<and> length mean_weights = 13 \<and> length cov_weights = 13
   \<and> real_of_int lambda_value / real_of_int (lambda_value + n_state) = 1/7
   \<and> 1 / real_of_int (2 * (n_state + lambda_value)) = 1/14"
  by (simp add: weights_nth replicate_12 n_state_def lambda_value_def)

text \<open>
  C7. For a state of six components and any 6 by 6 square root, the mean weights
  reconstruct the state from the sigma points before propagation: the weighted sum of the
  13 points is the state, both as the reference mean of the design and as the sum the
  code forms (scale each point, then sum along axis 0).
\<close>

theorem sigma_mean_reconstruction:
  assumes "length x = 6" and "length L = 6" and "\<forall>row\<in>set L. length row = 6"
  shows "spec_pred_mean (sigma_of x L) = x
    \<and> sum_axis0 6 (map2 scal mean_weights (sigma_of x L)) = x"
proof -
  note xs = list6 [OF assms(1)]
  note Ls = mat6 [OF assms(2,3)]
  have s: "sigma_of x L = sigma_of [x ! 0, x ! 1, x ! 2, x ! 3, x ! 4, x ! 5]
     [[L!0!0, L!0!1, L!0!2, L!0!3, L!0!4, L!0!5], [L!1!0, L!1!1, L!1!2, L!1!3, L!1!4, L!1!5],
              [L!2!0, L!2!1, L!2!2, L!2!3, L!2!4, L!2!5], [L!3!0, L!3!1, L!3!2, L!3!3, L!3!4, L!3!5],
              [L!4!0, L!4!1, L!4!2, L!4!3, L!4!4, L!4!5], [L!5!0, L!5!1, L!5!2, L!5!3, L!5!4, L!5!5]]"
    using xs Ls by simp
  have "spec_pred_mean (sigma_of x L) = [x ! 0, x ! 1, x ! 2, x ! 3, x ! 4, x ! 5]"
    by (simp add: s sigma_of_closed spec_pred_mean_def weights_nth sum_13 upt_6 field_simps)
  moreover have "sum_axis0 6 (map2 scal mean_weights (sigma_of x L)) = [x ! 0, x ! 1, x ! 2, x ! 3, x ! 4, x ! 5]"
    by (simp add: s sigma_of_closed weights_nth arr field_simps)
  ultimately show ?thesis using xs by simp
qed

theorem sigma_mean_reconstruction_witness:
  "length (state started) = 6 \<and> length started_sqrt = 6
   \<and> spec_pred_mean (sigma_of (state started) started_sqrt) = [0, 0, 0, 0, 0, 0]
   \<and> sum_axis0 6 (map2 scal mean_weights (sigma_of (state started) started_sqrt)) = [0, 0, 0, 0, 0, 0]"
proof -
  have h1: "length (state started) = 6" by (simp add: started_eq)
  have h2: "length started_sqrt = 6" by (simp add: started_sqrt_eq)
  have h3: "\<forall>row\<in>set started_sqrt. length row = 6" by (simp add: started_sqrt_eq)
  show ?thesis
    using sigma_mean_reconstruction [OF h1 h2 h3] h1 h2
    by (simp add: started_eq)
qed

section \<open>Output projection\<close>

text \<open>
  C9. Publishing leaves the filter object as it was, and both published covariances are
  row-major lists of 36 entries that are zero at every position \<open>(i, j)\<close> with \<open>i\<close> or \<open>j\<close>
  outside \<open>{0, 1, 5}\<close>.
\<close>

theorem publish_read_only:
  assumes "i < 6" and "j < 6" and "i \<notin> {0, 1, 5} \<or> j \<notin> {0, 1, 5}"
  shows "fst (publish_odometry s t) = s
    \<and> length (pose_covariance (snd (publish_odometry s t))) = 36
    \<and> length (twist_covariance (snd (publish_odometry s t))) = 36
    \<and> pose_covariance (snd (publish_odometry s t)) ! (6 * i + j) = 0
    \<and> twist_covariance (snd (publish_odometry s t)) ! (6 * i + j) = 0"
proof -
  have "pose_covariance (snd (publish_odometry s t)) ! (6 * i + j) = 0"
    using less6 [OF assms(1)] less6 [OF assms(2)] assms(3)
    by (auto simp add: pose_cov_closed)
  moreover have "twist_covariance (snd (publish_odometry s t)) ! (6 * i + j) = 0"
    using less6 [OF assms(1)] less6 [OF assms(2)] assms(3)
    by (auto simp add: twist_cov_closed)
  ultimately show ?thesis
    by (simp add: publish_keeps pose_cov_closed twist_cov_closed)
qed

theorem publish_read_only_witness:
  "(2::nat) < 6 \<and> (5::nat) < 6 \<and> (2::nat) \<notin> {0, 1, 5}
    \<and> fst (publish_odometry started 1) = started
    \<and> pose_covariance (snd (publish_odometry started 1)) ! 17 = 0
    \<and> twist_covariance (snd (publish_odometry started 1)) ! 17 = 0"
proof -
  have h1: "(2::nat) < 6" by simp
  have h2: "(5::nat) < 6" by simp
  have h3: "(2::nat) \<notin> {0, 1, 5} \<or> (5::nat) \<notin> {0, 1, 5}" by simp
  show ?thesis
    using publish_read_only [OF h1 h2 h3, of started 1] by simp
qed

section \<open>Start-up\<close>

text \<open>
  C8. On the first synchronized input, when no timestamp has been recorded, the callback
  records the sample's stamp and returns without publishing; state and covariance are left
  as they were, which for a fresh filter are the zero vector and \<open>0.1\<close> times the
  identity. No exception is raised. On every later step that returns, the sigma points
  and the Cholesky factor are taken from the persisted state and covariance, and the pair
  the update returns from them is the pair persisted afterwards.
\<close>

theorem first_sample:
  "(prev_time self = None \<longrightarrow>
      callback la self imu_data w cmd = (self\<lparr>prev_time := Some (stamp imu_data)\<rparr>, Inr None)
      \<and> state (fst (callback la self imu_data w cmd)) = state self
      \<and> state_cov (fst (callback la self imu_data w cmd)) = state_cov self)
   \<and> prev_time init = None
   \<and> state init = [0, 0, 0, 0, 0, 0]
   \<and> state_cov init = [[1/10, 0, 0, 0, 0, 0], [0, 1/10, 0, 0, 0, 0], [0, 0, 1/10, 0, 0, 0],
                        [0, 0, 0, 1/10, 0, 0], [0, 0, 0, 0, 1/10, 0], [0, 0, 0, 0, 0, 1/10]]
   \<and> (prev_time self = Some pt \<and> measurement_of imu_data w = Inr z \<and> z_cov_of imu_data = Inr R
        \<and> la_cholesky la (state_cov self) = Some L
        \<and> snd (callback la self imu_data w cmd) = Inr r \<longrightarrow>
      innovation la
           (fst (recombine (state_cov self) (state self) (sigma_of (state self) L) cmd (stamp imu_data - pt)))
           (snd (recombine (state_cov self) (state self) (sigma_of (state self) L) cmd (stamp imu_data - pt)))
           z R
         = Inr (state (fst (callback la self imu_data w cmd)),
                state_cov (fst (callback la self imu_data w cmd)))
      \<and> prev_time (fst (callback la self imu_data w cmd)) = Some (stamp imu_data)
      \<and> r = Some (snd (publish_odometry (fst (callback la self imu_data w cmd)) (stamp imu_data))))"
proof -
  have a: "prev_time self = None \<longrightarrow>
      callback la self imu_data w cmd = (self\<lparr>prev_time := Some (stamp imu_data)\<rparr>, Inr None)
      \<and> state (fst (callback la self imu_data w cmd)) = state self
      \<and> state_cov (fst (callback la self imu_data w cmd)) = state_cov self"
    by (simp add: callback_first)
  have b: "prev_time init = None \<and> state init = [0, 0, 0, 0, 0, 0]
   \<and> state_cov init = [[1/10, 0, 0, 0, 0, 0], [0, 1/10, 0, 0, 0, 0], [0, 0, 1/10, 0, 0, 0],
                        [0, 0, 0, 1/10, 0, 0], [0, 0, 0, 0, 1/10, 0], [0, 0, 0, 0, 0, 1/10]]"
    by (simp add: init_def arr)
  show ?thesis
    using a b callback_commits [where self = self and pt = pt and imu_data = imu_data and w = w
        and z = z and R = R and la = la and L = L and cmd = cmd and r = r] by blast
qed

theorem first_sample_witness:
  "prev_time init = None
   \<and> callback la_diag init (imu_at 0) wheels_still cmd_forward = (init\<lparr>prev_time := Some 0\<rparr>, Inr None)
   \<and> state (fst (callback la_diag init (imu_at 0) wheels_still cmd_forward)) = [0, 0, 0, 0, 0, 0]
   \<and> prev_time started = Some 0
   \<and> snd (callback la_diag started (imu_at 0) wheels_still cmd_forward) =
        Inr (Some (snd (publish_odometry
          (fst (callback la_diag started (imu_at 0) wheels_still cmd_forward)) 0)))
   \<and> innovation la_diag
        (fst (recombine (state_cov started) (state started) (sigma_of (state started) started_sqrt)
               cmd_forward 0))
        (snd (recombine (state_cov started) (state started) (sigma_of (state started) started_sqrt)
               cmd_forward 0))
        [0, 0, 0, 0, 0]
        [[1 / 100, 0, 0, 0, 0], [0, 3, 0, 0, 0], [0, 0, 3, 0, 0], [0, 0, 0, 3, 0], [0, 0, 0, 0, 3]]
      = Inr (state (fst (callback la_diag started (imu_at 0) wheels_still cmd_forward)),
             state_cov (fst (callback la_diag started (imu_at 0) wheels_still cmd_forward)))"
proof -
  have h0: "prev_time init = None" by (simp add: init_def)
  have h1: "prev_time started = Some 0" by (simp add: started_eq)
  have h5: "snd (callback la_diag started (imu_at 0) wheels_still cmd_forward) =
        Inr (Some (snd (publish_odometry
          (fst (callback la_diag started (imu_at 0) wheels_still cmd_forward)) 0)))"
    by (simp add: callback_dt0)
  have s0: "stamp (imu_at 0) = 0" by (simp add: imu_at_def)
  have first: "callback la_diag init (imu_at 0) wheels_still cmd_forward = (init\<lparr>prev_time := Some 0\<rparr>, Inr None)
   \<and> state (fst (callback la_diag init (imu_at 0) wheels_still cmd_forward)) = [0, 0, 0, 0, 0, 0]"
    using first_sample [where self = init and la = la_diag and imu_data = "imu_at 0"
        and w = wheels_still and cmd = cmd_forward] h0 s0
    by simp
  have later: "innovation la_diag
        (fst (recombine (state_cov started) (state started) (sigma_of (state started) started_sqrt)
               cmd_forward 0))
        (snd (recombine (state_cov started) (state started) (sigma_of (state started) started_sqrt)
               cmd_forward 0))
        [0, 0, 0, 0, 0]
        [[1 / 100, 0, 0, 0, 0], [0, 3, 0, 0, 0], [0, 0, 3, 0, 0], [0, 0, 0, 3, 0], [0, 0, 0, 0, 3]]
      = Inr (state (fst (callback la_diag started (imu_at 0) wheels_still cmd_forward)),
             state_cov (fst (callback la_diag started (imu_at 0) wheels_still cmd_forward)))"
    using first_sample [where self = started and pt = 0 and imu_data = "imu_at 0"
        and w = wheels_still and z = "[0, 0, 0, 0, 0]"
        and R = "[[1 / 100, 0, 0, 0, 0], [0, 3, 0, 0, 0], [0, 0, 3, 0, 0], [0, 0, 0, 3, 0], [0, 0, 0, 0, 3]]"
        and la = la_diag and L = started_sqrt and cmd = cmd_forward]
      h1 h5 measurement_sample [of 0] z_cov_sample [of 0] chol_started s0
    by simp
  show ?thesis
    using h0 h1 h5 first later by blast
qed

section \<open>Measurement covariance\<close>

text \<open>
  C10. On a step past the first sample, with a well-formed measurement and a covariance
  that factors, the update receives the measurement covariance \<open>diag (v, 3, 3, 3, 3)\<close>,
  where \<open>v\<close> is entry 8 of the IMU's angular velocity covariance: the outcome of the
  callback is the outcome of the update on that matrix.
\<close>

theorem measurement_cov_passed:
  assumes "prev_time self = Some pt"
    and "measurement_of imu_data w = Inr z"
    and "8 < length (angular_velocity_covariance imu_data)"
    and "la_cholesky la (state_cov self) = Some L"
    and "recombine (state_cov self) (state self) (sigma_of (state self) L) cmd (stamp imu_data - pt) = (xb, Pb)"
  shows "snd (callback la self imu_data w cmd) =
     (case innovation la xb Pb z
             [[angular_velocity_covariance imu_data ! 8, 0, 0, 0, 0],
              [0, 3, 0, 0, 0], [0, 0, 3, 0, 0], [0, 0, 0, 3, 0], [0, 0, 0, 0, 3]] of
        Inl e \<Rightarrow> Inl e
      | Inr p \<Rightarrow> Inr (Some (snd (publish_odometry
             (self\<lparr>prev_time := Some (stamp imu_data), state := fst p, state_cov := snd p\<rparr>)
             (stamp imu_data)))))"
  using callback_run [OF assms(1,2) z_cov_closed [OF assms(3)] assms(4,5)]
  by (simp split: sum.splits)

theorem measurement_cov_passed_witness:
  "prev_time started = Some 0
   \<and> measurement_of (imu_at 1) wheels_still = Inr [0, 0, 0, 0, 0]
   \<and> 8 < length (angular_velocity_covariance (imu_at 1))
   \<and> la_cholesky la_diag (state_cov started) = Some started_sqrt
   \<and> snd (callback la_diag started (imu_at 1) wheels_still cmd_forward) =
     (case innovation la_diag
             (fst (recombine (state_cov started) (state started)
                     (sigma_of (state started) started_sqrt) cmd_forward (stamp (imu_at 1) - 0)))
             (snd (recombine (state_cov started) (state started)
                     (sigma_of (state started) started_sqrt) cmd_forward (stamp (imu_at 1) - 0)))
             [0, 0, 0, 0, 0]
             [[1 / 100, 0, 0, 0, 0], [0, 3, 0, 0, 0], [0, 0, 3, 0, 0], [0, 0, 0, 3, 0], [0, 0, 0, 0, 3]] of
        Inl e \<Rightarrow> Inl e
      | Inr p \<Rightarrow> Inr (Some (snd (publish_odometry
             (started\<lparr>prev_time := Some (stamp (imu_at 1)), state := fst p, state_cov := snd p\<rparr>)
             (stamp (imu_at 1))))))"
proof -
  have h1: "prev_time started = Some 0" by (simp add: started_eq)
  have h3: "8 < length (angular_velocity_covariance (imu_at 1))" by (simp add: imu_at_def)
  have h5: "recombine (state_cov started) (state started) (sigma_of (state started) started_sqrt)
      cmd_forward (stamp (imu_at 1) - 0) =
     (fst (recombine (state_cov started) (state started)
             (sigma_of (state started) started_sqrt) cmd_forward (stamp (imu_at 1) - 0)),
      snd (recombine (state_cov started) (state started)
             (sigma_of (state started) started_sqrt) cmd_forward (stamp (imu_at 1) - 0)))"
    by simp
  have v: "angular_velocity_covariance (imu_at 1) ! 8 = 1 / 100" by (simp add: imu_at_def)
  show ?thesis
    using measurement_cov_passed [OF h1 measurement_sample h3 chol_started h5] h1 h3
    by (simp only: v measurement_sample chol_started simp_thms)
qed

section \<open>Measurement update\<close>

text \<open>
  C5. For a predicted pair, a measurement and a measurement covariance whose regularised
  innovation covariance \<open>S = C P C\<^sup>T + R + \<epsilon> I\<close> the library inverts, with
  \<open>\<epsilon> = 10\<^sup>-\<^sup>6\<close>, the update returns \<open>x + K (z - C x)\<close> and
  \<open>(I - K C) P + \<epsilon> I\<close> for the gain \<open>K = P C\<^sup>T S\<^sup>-\<^sup>1\<close>, where \<open>C\<close> is the fixed
  5 by 6 matrix written out below from the wheel geometry.
\<close>

theorem innovation_update:
  assumes "la_inv la
     (mat_add (mat_add (matmul (matmul obs_matrix P) (mat_T obs_matrix)) R) (mat_scal (1 / 10 ^ 6) (eye 5)))
     = Some Si"
  shows "innovation la x P z R =
     Inr (vec_add x (mat_vec (matmul (matmul P (mat_T obs_matrix)) Si) (vec_sub z (mat_vec obs_matrix x))),
          mat_add (matmul (mat_sub (eye 6) (matmul (matmul (matmul P (mat_T obs_matrix)) Si) obs_matrix)) P)
                  (mat_scal (1 / 10 ^ 6) (eye 6)))
     \<and> obs_matrix =
        [[0, 0, 0, 0, 0, 1],
         [0, 0, 0, 1 / wheel_radius, - (1 / wheel_radius),
            - ((0.5 * (wheel_radius + wheel_pair_separation) + 0.5 * (wheel_separation + wheel_width)) / wheel_radius)],
         [0, 0, 0, 1 / wheel_radius, 1 / wheel_radius,
            (0.5 * (wheel_radius + wheel_pair_separation) + 0.5 * (wheel_separation + wheel_width)) / wheel_radius],
         [0, 0, 0, 1 / wheel_radius, 1 / wheel_radius,
            - ((0.5 * (wheel_radius + wheel_pair_separation) + 0.5 * (wheel_separation + wheel_width)) / wheel_radius)],
         [0, 0, 0, 1 / wheel_radius, - (1 / wheel_radius),
            (0.5 * (wheel_radius + wheel_pair_separation) + 0.5 * (wheel_separation + wheel_width)) / wheel_radius]]"
proof -
  have "innovation la x P z R =
     Inr (vec_add x (mat_vec (matmul (matmul P (mat_T obs_matrix)) Si) (vec_sub z (mat_vec obs_matrix x))),
          mat_add (matmul (mat_sub (eye 6) (matmul (matmul (matmul P (mat_T obs_matrix)) Si) obs_matrix)) P)
                  (mat_scal (1 / 10 ^ 6) (eye 6)))"
    using assms by (simp add: innovation_def Let_def epsilon_def)
  then show ?thesis
    using obs_matrix_closed by (simp only: simp_thms)
qed

theorem innovation_update_witness:
  "la_inv la_diag
     (mat_add (mat_add (matmul (matmul obs_matrix
        [[2 / 35, 0, 0, 0, 0, 0], [0, 2 / 35, 0, 0, 0, 0], [0, 0, 2 / 35, 0, 0, 0],
         [0, 0, 0, 0, 0, 0], [0, 0, 0, 0, 0, 0], [0, 0, 0, 0, 0, 0]]) (mat_T obs_matrix))
        [[1 / 100, 0, 0, 0, 0], [0, 3, 0, 0, 0], [0, 0, 3, 0, 0], [0, 0, 0, 3, 0], [0, 0, 0, 0, 3]])
        (mat_scal (1 / 10 ^ 6) (eye 5)))
   = Some [[1000000 / 10001, 0, 0, 0, 0], [0, 1000000 / 3000001, 0, 0, 0],
           [0, 0, 1000000 / 3000001, 0, 0], [0, 0, 0, 1000000 / 3000001, 0],
           [0, 0, 0, 0, 1000000 / 3000001]]
   \<and> innovation la_diag [0, 0, 0, 1, 0, 0]
      [[2 / 35, 0, 0, 0, 0, 0], [0, 2 / 35, 0, 0, 0, 0], [0, 0, 2 / 35, 0, 0, 0],
       [0, 0, 0, 0, 0, 0], [0, 0, 0, 0, 0, 0], [0, 0, 0, 0, 0, 0]]
      [0, 0, 0, 0, 0]
      [[1 / 100, 0, 0, 0, 0], [0, 3, 0, 0, 0], [0, 0, 3, 0, 0], [0, 0, 0, 3, 0], [0, 0, 0, 0, 3]] =
   Inr ([0, 0, 0, 1, 0, 0],
        [[400007 / 7000000, 0, 0, 0, 0, 0], [0, 400007 / 7000000, 0, 0, 0, 0],
         [0, 0, 400007 / 7000000, 0, 0, 0], [0, 0, 0, 1 / 1000000, 0, 0],
         [0, 0, 0, 0, 1 / 1000000, 0], [0, 0, 0, 0, 0, 1 / 1000000]])"
  using innovation_update [OF inv_sample, of "[0, 0, 0, 1, 0, 0]" "[0, 0, 0, 0, 0]"] inv_sample
  by (simp add: obs_matrix_num arr)

section \<open>Recombination\<close>

text \<open>
  C1. The predicted mean handed to the update is the weighted mean of the propagated
  sigma points. The predicted covariance is not taken about that mean: the code takes the
  outer products about the motion model applied to the current state. On the second
  sample of a fresh filter, one second after the first and with a forward command of 1,
  the two reference points differ, and entry \<open>(0, 0)\<close> of the code's covariance exceeds
  the covariance about the weighted mean by \<open>(1 - cos (2 sqrt 0.1))\<^sup>2 / 49\<close>.
\<close>

theorem recombine_cov_reference_mean:
  "fst (recombine (state_cov started) (state started) started_sigma cmd_forward 1)
     = spec_pred_mean (propagated (state_cov started) started_sigma cmd_forward 1)
   \<and> snd (recombine (state_cov started) (state started) started_sigma cmd_forward 1)
     = cov_about (fst (predict (state_cov started) (state started) cmd_forward 1))
         (propagated (state_cov started) started_sigma cmd_forward 1)
   \<and> snd (recombine (state_cov started) (state started) started_sigma cmd_forward 1) ! 0 ! 0
       - spec_pred_cov (propagated (state_cov started) started_sigma cmd_forward 1) ! 0 ! 0
     = (1 - cos (2 * sqrt (1 / 10)))\<^sup>2 / 49
   \<and> snd (recombine (state_cov started) (state started) started_sigma cmd_forward 1)
     \<noteq> spec_pred_cov (propagated (state_cov started) started_sigma cmd_forward 1)"
proof -
  let ?R = "recombine (state_cov started) (state started) started_sigma cmd_forward 1"
  let ?F = "propagated (state_cov started) started_sigma cmd_forward 1"
  have R: "?R =
     ([(6 + cos (2 * sqrt (1 / 10))) / 7, 0, 0, 1, 0, 0],
      [[(1 - cos (2 * sqrt (1 / 10))) * (1 - cos (2 * sqrt (1 / 10))) / 7
          + 4 * (sqrt (1 / 10) * sqrt (1 / 10)) / 7, 0, 0, 0, 0, 0],
       [0, sin (2 * sqrt (1 / 10)) * sin (2 * sqrt (1 / 10)) / 7 + 4 * (sqrt (1 / 10) * sqrt (1 / 10)) / 7,
        2 * (sqrt (1 / 10) * sin (2 * sqrt (1 / 10))) / 7, 0, 0, 0],
       [0, 2 * (sqrt (1 / 10) * sin (2 * sqrt (1 / 10))) / 7, 4 * (sqrt (1 / 10) * sqrt (1 / 10)) / 7, 0, 0, 0],
       [0, 0, 0, 0, 0, 0], [0, 0, 0, 0, 0, 0], [0, 0, 0, 0, 0, 0]])"
    unfolding state_started started_sigma_eq by (rule recombine_iso)
  have F: "?F =
     [[1, 0, 0, 1, 0, 0], [2 * sqrt (1 / 10) + 1, 0, 0, 1, 0, 0], [1, 2 * sqrt (1 / 10), 0, 1, 0, 0],
      [cos (2 * sqrt (1 / 10)), sin (2 * sqrt (1 / 10)), 2 * sqrt (1 / 10), 1, 0, 0],
      [1, 0, 0, 1, 0, 0], [1, 0, 0, 1, 0, 0], [1, 0, 0, 1, 0, 0],
      [1 - 2 * sqrt (1 / 10), 0, 0, 1, 0, 0], [1, - (2 * sqrt (1 / 10)), 0, 1, 0, 0],
      [cos (2 * sqrt (1 / 10)), - sin (2 * sqrt (1 / 10)), - (2 * sqrt (1 / 10)), 1, 0, 0],
      [1, 0, 0, 1, 0, 0], [1, 0, 0, 1, 0, 0], [1, 0, 0, 1, 0, 0]]"
    unfolding started_sigma_eq by (rule propagated_iso)
  have m: "fst (predict (state_cov started) (state started) cmd_forward 1) = [1, 0, 0, 1, 0, 0]"
    by (simp add: state_started predict_fst cmd_forward_def)
  have mean: "fst ?R = spec_pred_mean ?F"
    unfolding R F mean_iso by simp
  have cov: "snd ?R = cov_about (fst (predict (state_cov started) (state started) cmd_forward 1)) ?F"
    unfolding R F m cov_iso by simp
  have gap: "snd ?R ! 0 ! 0 - spec_pred_cov ?F ! 0 ! 0 = (1 - cos (2 * sqrt (1 / 10)))\<^sup>2 / 49"
    unfolding R F spec_cov_iso_00 by simp
  have nz: "(1 - cos (2 * sqrt (1 / 10)))\<^sup>2 / 49 \<noteq> 0"
    using cos_sample_lt_1 by simp
  have "snd ?R ! 0 ! 0 \<noteq> spec_pred_cov ?F ! 0 ! 0"
  proof
    assume "snd ?R ! 0 ! 0 = spec_pred_cov ?F ! 0 ! 0"
    then have eq0: "snd ?R ! 0 ! 0 - spec_pred_cov ?F ! 0 ! 0 = 0"
      by simp
    have "(1 - cos (2 * sqrt (1 / 10)))\<^sup>2 / 49 = 0"
      by (rule trans [OF gap [symmetric] eq0])
    with nz show False ..
  qed
  then have ne: "snd ?R \<noteq> spec_pred_cov ?F"
    by auto
  show ?thesis
    using mean cov gap ne by (intro conjI)
qed

section \<open>Non-positive time steps\<close>

text \<open>
  C2, as the code has it. The callback has no check on the time step. On a step past the
  first sample whose time step is zero or negative, with a well-formed measurement and
  library calls that succeed, it runs as for any other step: the timestamp is recorded,
  state and covariance are replaced by the output of the update, one message is published
  and no exception is raised.
\<close>

theorem nonpositive_dt_step:
  assumes "prev_time self = Some pt"
    and "stamp imu_data - pt \<le> 0"
    and "measurement_of imu_data w = Inr z"
    and "z_cov_of imu_data = Inr R"
    and "la_cholesky la (state_cov self) = Some L"
    and "recombine (state_cov self) (state self) (sigma_of (state self) L) cmd (stamp imu_data - pt) = (xb, Pb)"
    and "innovation la xb Pb z R = Inr (x', P')"
  shows "callback la self imu_data w cmd =
     (self\<lparr>prev_time := Some (stamp imu_data), state := x', state_cov := P'\<rparr>,
      Inr (Some (snd (publish_odometry
         (self\<lparr>prev_time := Some (stamp imu_data), state := x', state_cov := P'\<rparr>)
         (stamp imu_data)))))"
  using callback_run [OF assms(1,3,4,5,6)] assms(7) by simp

theorem nonpositive_dt_step_witness:
  "prev_time started = Some 0 \<and> stamp (imu_at (- 1)) - 0 \<le> 0
   \<and> callback la_diag started (imu_at (- 1)) wheels_still cmd_turn =
     (\<lparr> state = [0, 0, - 1, 0, 0, 1],
         state_cov = [[400007 / 7000000, 0, 0, 0, 0, 0], [0, 400007 / 7000000, 0, 0, 0, 0],
                      [0, 0, 400007 / 7000000, 0, 0, 0], [0, 0, 0, 1 / 1000000, 0, 0],
                      [0, 0, 0, 0, 1 / 1000000, 0], [0, 0, 0, 0, 0, 1 / 1000000]],
         prev_time = Some (- 1) \<rparr>,
      Inr (Some (snd (publish_odometry
        \<lparr> state = [0, 0, - 1, 0, 0, 1],
           state_cov = [[400007 / 7000000, 0, 0, 0, 0, 0], [0, 400007 / 7000000, 0, 0, 0, 0],
                        [0, 0, 400007 / 7000000, 0, 0, 0], [0, 0, 0, 1 / 1000000, 0, 0],
                        [0, 0, 0, 0, 1 / 1000000, 0], [0, 0, 0, 0, 0, 1 / 1000000]],
           prev_time = Some (- 1) \<rparr> (- 1)))))"
proof -
  have h1: "prev_time started = Some 0" by (simp add: started_eq)
  have h2: "stamp (imu_at (- 1)) - 0 \<le> 0" by (simp add: imu_at_def)
  show ?thesis
    using nonpositive_dt_step [OF h1 h2 measurement_sample z_cov_sample chol_started
        recombine_turn innovation_turn] h1 h2
    by (simp add: started_eq imu_at_def)
qed

text \<open>
  A second sample that carries the stamp of the first gives a time step of zero. The
  callback then overwrites the velocity components of the state with the command,
  replaces the covariance and publishes.
\<close>

theorem nonpositive_dt_counterexample:
  "prev_time started = Some 0 \<and> stamp (imu_at 0) - 0 \<le> 0
   \<and> state started = [0, 0, 0, 0, 0, 0]
   \<and> state (fst (callback la_diag started (imu_at 0) wheels_still cmd_forward)) = [0, 0, 0, 1, 0, 0]
   \<and> state_cov (fst (callback la_diag started (imu_at 0) wheels_still cmd_forward)) \<noteq> state_cov started
   \<and> snd (callback la_diag started (imu_at 0) wheels_still cmd_forward) =
       Inr (Some (snd (publish_odometry
         (fst (callback la_diag started (imu_at 0) wheels_still cmd_forward)) 0)))"
  by (simp add: callback_dt0) (simp add: started_eq imu_at_def)

end
